theory Spec2Isabelle
  imports Complex_Main
begin

unbundle bit_operations_syntax

section \<open>Data model of \<^verbatim>\<open>features/eolearn/features/thresholding.py\<close>\<close>

text \<open>
  The module defines two classes, \<^verbatim>\<open>Thresholding\<close> and \<^verbatim>\<open>Bluring\<close>. Both store their
  constructor arguments as attributes after checking them, and both have one operation
  (\<^verbatim>\<open>_thresholding\<close>, \<^verbatim>\<open>_blur\<close>) that reads and reassigns \<^verbatim>\<open>self.img\<close>. Identifiers cannot
  start with an underscore here, so the two operations are called \<open>thresholding\<close> and
  \<open>blur\<close>.

  Python integers are unbounded: \<open>int\<close>, with \<open>OR\<close> for \<^verbatim>\<open>|\<close> and \<open>mod\<close> for \<^verbatim>\<open>%\<close> (both
  agree with Python on negative operands). Exceptions are values of the type \<open>error\<close>;
  an exception that comes out of a routine that is a parameter of the model (the feature
  parser of the task framework, the OpenCV primitives) is wrapped in \<open>LibraryError\<close>.
  The indexed assignment of numpy raises the built-in \<^verbatim>\<open>IndexError\<close> and \<^verbatim>\<open>ValueError\<close>; a
  \<open>ValueError\<close> carries the fixed part of its message, which tells the nine \<^verbatim>\<open>raise\<close>
  statements of the module and the one of numpy apart.
\<close>

datatype 'e error =
    AttributeError
  | ValueError string
  | TypeError
  | KeyError
  | IndexError
  | LibraryError 'e

text \<open>
  Arrays are objects that are shared by reference: the caller's buffer, \<^verbatim>\<open>self.img\<close> and
  the entries of a patch may all name the same array. The heap maps an address to the
  array stored there; \<open>fresh\<close> is the next unused address. The docstrings give the image
  as a ``2D array or 3D array'': an array is either a grid of rows of single values
  (\<open>Gray\<close>, the form \<^verbatim>\<open>cv.adaptiveThreshold\<close> works on) or a grid of rows of three-channel
  pixels (\<open>Colour\<close>, the form the 3-tuple of line 112 and the colour conversion of line
  114 are written for); arrays with another number of channels are not modelled. The
  output of the adaptive threshold is a grid of single values.
\<close>

type_synonym addr = nat
type_synonym pixel = "int \<times> int \<times> int"
type_synonym image = "pixel list list"
type_synonym gray = "int list list"

datatype ndarray = Gray gray | Colour image

record heap =
  cells :: "addr \<Rightarrow> ndarray"
  fresh :: addr


definition heap_after :: "('x \<times> 's \<times> 'k) + ('r \<times> 's \<times> 'k) \<Rightarrow> 'k" where
  "heap_after out = (case out of Inl (e, s, k) \<Rightarrow> k | Inr (r, s, k) \<Rightarrow> k)"

definition alloc :: "heap \<Rightarrow> ndarray \<Rightarrow> addr \<times> heap" where
  "alloc h im = (fresh h, h\<lparr>cells := (cells h)(fresh h := im), fresh := Suc (fresh h)\<rparr>)"

text \<open>
  A value that is either an integer or a tuple of integers: the Gaussian kernel size is
  documented as a pair and checked as if it were an integer.
\<close>

datatype pyval = PyInt int | PyTuple "int list"

text \<open>
  The feature argument is \<^verbatim>\<open>(FeatureType, str)\<close> or \<^verbatim>\<open>(FeatureType, str, str)\<close>; the parsed
  form is a list of triples. The enumeration \<^verbatim>\<open>FeatureType\<close> belongs to the framework and
  is a type parameter.
\<close>

type_synonym 'ft feature_arg = "'ft \<times> string \<times> string option"
type_synonym 'ft feature_triple = "'ft \<times> string \<times> string"
type_synonym 'ft patch = "'ft \<Rightarrow> (string \<Rightarrow> addr option) option"

text \<open>
  Modelled from the spec: the feature-normalisation routine of the pipeline framework
  (\<^verbatim>\<open>EOTask._parse_features\<close>, called with \<^verbatim>\<open>new_names=True\<close> and
  \<^verbatim>\<open>rename_function='{}_THRESH'.format\<close>) is not part of the module. The output name
  defaults to \<^verbatim>\<open><input-name>_THRESH\<close> when unspecified.
\<close>

fun parse_features_THRESH :: "'ft feature_arg \<Rightarrow> 'e + 'ft feature_triple list" where
  "parse_features_THRESH (ft, name, None) = Inr [(ft, name, name @ ''_THRESH'')]"
| "parse_features_THRESH (ft, name, Some new_name) = Inr [(ft, name, new_name)]"

subsection \<open>The OpenCV primitives\<close>

text \<open>
  Every numeric operation is delegated to OpenCV. The primitives are parameters of the
  model: each takes the array value and the arguments the module passes, and returns a
  new array or fails. The integer constants are those of the OpenCV enumerations.
\<close>

record 'e cv =
  adaptiveThreshold :: "ndarray \<Rightarrow> int \<Rightarrow> int \<Rightarrow> int \<Rightarrow> int \<Rightarrow> int \<Rightarrow> 'e + gray"
  cvtColor :: "ndarray \<Rightarrow> int \<Rightarrow> 'e + ndarray"
  threshold :: "ndarray \<Rightarrow> int \<Rightarrow> int \<Rightarrow> int \<Rightarrow> 'e + (real \<times> ndarray)"
  bilateralFilter :: "ndarray \<Rightarrow> int \<Rightarrow> real \<Rightarrow> real \<Rightarrow> int \<Rightarrow> 'e + ndarray"
  medianBlur :: "ndarray \<Rightarrow> int \<Rightarrow> 'e + ndarray"
  GaussianBlur :: "ndarray \<Rightarrow> pyval \<Rightarrow> real \<Rightarrow> real \<Rightarrow> int \<Rightarrow> 'e + ndarray"

definition cv_ADAPTIVE_THRESH_MEAN_C :: int where "cv_ADAPTIVE_THRESH_MEAN_C = 0"
definition cv_ADAPTIVE_THRESH_GAUSSIAN_C :: int where "cv_ADAPTIVE_THRESH_GAUSSIAN_C = 1"
definition cv_THRESH_BINARY :: int where "cv_THRESH_BINARY = 0"
definition cv_THRESH_BINARY_INV :: int where "cv_THRESH_BINARY_INV = 1"
definition cv_THRESH_TRUNC :: int where "cv_THRESH_TRUNC = 2"
definition cv_THRESH_TOZERO :: int where "cv_THRESH_TOZERO = 3"
definition cv_THRESH_TOZERO_INV :: int where "cv_THRESH_TOZERO_INV = 4"
definition cv_THRESH_OTSU :: int where "cv_THRESH_OTSU = 8"
definition cv_COLOR_BGR2RGB :: int where "cv_COLOR_BGR2RGB = 4"

section \<open>Class \<^verbatim>\<open>Thresholding\<close>\<close>

definition AVAILABLE_METHODS_ADAPTIVE_THRESHOLDING :: "string list" where
  "AVAILABLE_METHODS_ADAPTIVE_THRESHOLDING =
     [''ADAPTIVE_THRESH_MEAN_C'', ''ADAPTIVE_THRESH_GAUSSIAN_C'']"

definition AVAILABLE_METHODS_SIMPLE_THRESHOLDING :: "string list" where
  "AVAILABLE_METHODS_SIMPLE_THRESHOLDING =
     [''THRESH_BINARY'', ''THRESH_BINARY_INV'', ''THRESH_TRUNC'', ''THRESH_TOZERO'',
      ''THRESH_TOZERO_INV'']"

definition AVAILABLE_TRESHOLD_TYPE :: "string list" where
  "AVAILABLE_TRESHOLD_TYPE = [''THRESH_BINARY'', ''THRESH_BINARY_INV'']"

text \<open>
  The attributes of an instance, in the order \<^verbatim>\<open>__init__\<close> assigns them. The record is
  also used for the constructor's arguments, where \<open>feature\<close> is the argument as passed;
  in an instance it is the parsed list of triples.
\<close>

record 'f Thresholding =
  feature :: 'f
  img :: addr
  adaptive_th :: string
  thresh_type :: string
  simple_th :: string
  blockSize :: int
  c :: int
  mask_th :: int
  maxValue :: int
  otsu :: int
  simple_th_value :: int
  simple_th_maxValue :: int

text \<open>
  \<^verbatim>\<open>__init__\<close>, lines 68 to 97. Line 68 calls \<^verbatim>\<open>self._parse_features\<close>. The class
  statement of line 9 names no base class and the class body defines no such method, so
  the first argument is what the attribute lookup finds: \<open>None\<close> for the class as it is
  written (the lookup raises \<^verbatim>\<open>AttributeError\<close>), \<open>Some parse\<close> for a class that inherits
  the method from the framework's task class.

  In Python \<^verbatim>\<open>|\<close> binds tighter than a comparison, and comparisons chain. The guard of
  line 84, \<^verbatim>\<open>self.mask_th < 0 | self.mask_th > 255\<close>, is therefore
  \<^verbatim>\<open>self.mask_th < (0 | self.mask_th) and (0 | self.mask_th) > 255\<close>; the guards of lines
  87, 90, 93 and 96 read the same way.
\<close>

definition Thresholding_init ::
  "('ft feature_arg \<Rightarrow> 'e + 'ft feature_triple list) option
   \<Rightarrow> ('ft feature_arg) Thresholding
   \<Rightarrow> 'e error + ('ft feature_triple list) Thresholding" where
  "Thresholding_init parse_features a =
    (case parse_features of
       None \<Rightarrow> Inl AttributeError
     | Some parse \<Rightarrow>
        (case parse (feature a) of
           Inl e \<Rightarrow> Inl (LibraryError e)
         | Inr fs \<Rightarrow>
            if adaptive_th a \<notin> set AVAILABLE_METHODS_ADAPTIVE_THRESHOLDING then
              Inl (ValueError ''Adaptive thresholding method must be one of these'')
            else if thresh_type a \<notin> set AVAILABLE_TRESHOLD_TYPE then
              Inl (ValueError ''Thresholding type must be one of these'')
            else if simple_th a \<notin> set AVAILABLE_METHODS_SIMPLE_THRESHOLDING then
              Inl (ValueError ''Simple thresholding method must be one of these'')
            else if blockSize a mod 2 \<noteq> 1 then
              Inl (ValueError ''Block size must be an odd number'')
            else if mask_th a < (0 OR mask_th a) \<and> (0 OR mask_th a) > 255 then
              Inl (ValueError ''Mask threshold must be between 0 and 255'')
            else if maxValue a > (255 OR maxValue a) \<and> (255 OR maxValue a) < 0 then
              Inl (ValueError ''maxValue must be between 0 and 255'')
            else if otsu a \<noteq> (0 OR otsu a) \<and> (0 OR otsu a) \<noteq> 1 then
              Inl (ValueError ''Parameter otsu must be 0 or 1'')
            else if simple_th_value a > (255 OR simple_th_value a)
                    \<and> (255 OR simple_th_value a) < 0 then
              Inl (ValueError ''simple_th_value must be between 0 and 255'')
            else if simple_th_maxValue a > (255 OR simple_th_maxValue a)
                    \<and> (255 OR simple_th_maxValue a) < 0 then
              Inl (ValueError ''simple_th_maxValue must be between 0 and 255'')
            else
              Inr \<lparr>feature = fs, img = img a, adaptive_th = adaptive_th a,
                   thresh_type = thresh_type a, simple_th = simple_th a,
                   blockSize = blockSize a, c = c a, mask_th = mask_th a,
                   maxValue = maxValue a, otsu = otsu a,
                   simple_th_value = simple_th_value a,
                   simple_th_maxValue = simple_th_maxValue a\<rparr>))"

text \<open>
  Lines 100 to 109: the nested \<^verbatim>\<open>if\<close>/\<^verbatim>\<open>else\<close> that selects the method and type constants
  passed to \<^verbatim>\<open>cv.adaptiveThreshold\<close>. The four calls differ only in these two arguments.
\<close>

definition adaptive_dispatch :: "string \<Rightarrow> string \<Rightarrow> int \<times> int" where
  "adaptive_dispatch adaptive thresh =
    (if adaptive = ''ADAPTIVE_THRESH_MEAN_C'' then
       (if thresh = ''THRESH_BINARY'' then (cv_ADAPTIVE_THRESH_MEAN_C, cv_THRESH_BINARY)
        else (cv_ADAPTIVE_THRESH_MEAN_C, cv_THRESH_BINARY_INV))
     else
       (if thresh = ''THRESH_BINARY'' then (cv_ADAPTIVE_THRESH_GAUSSIAN_C, cv_THRESH_BINARY)
        else (cv_ADAPTIVE_THRESH_GAUSSIAN_C, cv_THRESH_BINARY_INV)))"

text \<open>
  Lines 115 to 141: the \<^verbatim>\<open>if\<close>/\<^verbatim>\<open>elif\<close> chain on \<^verbatim>\<open>self.simple_th\<close> and \<^verbatim>\<open>self.otsu\<close>. The
  ten calls of \<^verbatim>\<open>cv.threshold\<close> differ only in the type argument, which is the value
  returned here; \<open>None\<close> is the trailing \<^verbatim>\<open>else\<close> of line 140, where no call is made.
\<close>

definition simple_dispatch :: "string \<Rightarrow> int \<Rightarrow> int option" where
  "simple_dispatch simple otsu_flag =
    (if simple = ''THRESH_BINARY'' then
       (if otsu_flag = 0 then Some cv_THRESH_BINARY
        else Some (cv_THRESH_BINARY + cv_THRESH_OTSU))
     else if simple = ''THRESH_BINARY_INV'' then
       (if otsu_flag = 0 then Some cv_THRESH_BINARY_INV
        else Some (cv_THRESH_BINARY_INV + cv_THRESH_OTSU))
     else if simple = ''THRESH_TOZERO'' then
       (if otsu_flag = 0 then Some cv_THRESH_TOZERO
        else Some (cv_THRESH_TOZERO + cv_THRESH_OTSU))
     else if simple = ''THRESH_TOZERO_INV'' then
       (if otsu_flag = 0 then Some cv_THRESH_TOZERO_INV
        else Some (cv_THRESH_TOZERO_INV + cv_THRESH_OTSU))
     else if simple = ''THRESH_TRUNC'' then
       (if otsu_flag = 0 then Some cv_THRESH_TRUNC
        else Some (cv_THRESH_TRUNC + cv_THRESH_OTSU))
     else None)"

text \<open>
  Line 111, \<^verbatim>\<open>mask = (th_adaptiv < self.mask_th) * 255\<close>: the comparison is taken element
  by element and gives a truth value, which the multiplication reads as 0 or 1.
\<close>

definition mask_of :: "gray \<Rightarrow> int \<Rightarrow> gray" where
  "mask_of th_adaptiv cutoff = map (map (\<lambda>v. of_bool (v < cutoff) * 255)) th_adaptiv"

text \<open>
  Line 112, \<^verbatim>\<open>self.img[mask!=0] = (255,0,0)\<close>: assignment through a boolean index. The
  index must have the shape of the grid (\<^verbatim>\<open>IndexError\<close> otherwise).

  On a grid of three-channel pixels the index selects pixels, and the 3-tuple is one
  pixel: every pixel whose mask entry is not zero is replaced by it, the others are kept.

  On a grid of single values the index selects single values, and the 3-tuple is a
  sequence of three values to be stored in them: numpy raises \<^verbatim>\<open>ValueError\<close> (``cannot
  assign 3 input values to the N output values where the mask is true'') unless exactly
  three entries of the mask are not zero, and then stores the three values, in row-major
  order, in the three selected places.
\<close>

fun put_row :: "int list \<Rightarrow> int list \<Rightarrow> int list \<Rightarrow> int list \<times> int list" where
  "put_row (x # xs) (m # ms) (v # vs) =
     (if m \<noteq> 0 then (let (row, rest) = put_row xs ms vs in (v # row, rest))
      else (let (row, rest) = put_row xs ms (v # vs) in (x # row, rest)))"
| "put_row xs ms vs = (xs, vs)"

fun put_rows :: "gray \<Rightarrow> gray \<Rightarrow> int list \<Rightarrow> gray" where
  "put_rows (row # rows) (mrow # mrows) vs =
     (let (row', rest) = put_row row mrow vs in row' # put_rows rows mrows rest)"
| "put_rows rows mrows vs = rows"

definition count_nonzero :: "gray \<Rightarrow> nat" where
  "count_nonzero msk = length (filter (\<lambda>m. m \<noteq> 0) (concat msk))"

definition setitem_mask :: "ndarray \<Rightarrow> gray \<Rightarrow> pixel \<Rightarrow> 'e error + ndarray" where
  "setitem_mask arr msk v =
    (case arr of
       Colour im \<Rightarrow>
         if map length msk \<noteq> map length im then Inl IndexError
         else Inr (Colour (map2 (map2 (\<lambda>p m. if m \<noteq> 0 then v else p)) im msk))
     | Gray g \<Rightarrow>
         if map length msk \<noteq> map length g then Inl IndexError
         else if count_nonzero msk \<noteq> 3 then
           Inl (ValueError ''NumPy boolean array indexing assignment cannot assign 3 input values'')
         else Inr (Gray (put_rows g msk [fst v, fst (snd v), snd (snd v)])))"

text \<open>
  \<^verbatim>\<open>_thresholding(self)\<close>, lines 99 to 143. A call that returns gives the returned array
  (an address), the instance and the heap after the call; a call that raises gives the
  exception, the instance and the heap at that moment. Line 112 writes into the array
  that \<^verbatim>\<open>self.img\<close> names; lines 114 and 117 to 139 bind new arrays.
\<close>

definition thresholding ::
  "'e cv \<Rightarrow> 'f Thresholding \<Rightarrow> heap
   \<Rightarrow> ('e error \<times> 'f Thresholding \<times> heap) + (addr \<times> 'f Thresholding \<times> heap)" where
  "thresholding cv self h =
    (case adaptiveThreshold cv (cells h (img self)) (maxValue self)
            (fst (adaptive_dispatch (adaptive_th self) (thresh_type self)))
            (snd (adaptive_dispatch (adaptive_th self) (thresh_type self)))
            (blockSize self) (c self) of
       Inl e \<Rightarrow> Inl (LibraryError e, self, h)
     | Inr th_adaptiv \<Rightarrow>
        (case setitem_mask (cells h (img self)) (mask_of th_adaptiv (mask_th self)) (255, 0, 0) of
           Inl e \<Rightarrow> Inl (e, self, h)
         | Inr recoloured \<Rightarrow>
            let h1 = h\<lparr>cells := (cells h)(img self := recoloured)\<rparr> in
            (case cvtColor cv (cells h1 (img self)) cv_COLOR_BGR2RGB of
               Inl e \<Rightarrow> Inl (LibraryError e, self, h1)
             | Inr converted \<Rightarrow>
                let (a, h2) = alloc h1 converted;
                    self1 = self\<lparr>img := a\<rparr>
                in (case simple_dispatch (simple_th self1) (otsu self1) of
                      None \<Rightarrow> Inr (img self1, self1, h2)
                    | Some flag \<Rightarrow>
                       (case threshold cv (cells h2 (img self1)) (simple_th_value self1)
                               (simple_th_maxValue self1) flag of
                          Inl e \<Rightarrow> Inl (LibraryError e, self1, h2)
                        | Inr (ret, result) \<Rightarrow>
                           let (r, h3) = alloc h2 result in Inr (r, self1, h3))))))"

text \<open>
  A call \<^verbatim>\<open>self._thresholding(x1, ..., xn)\<close>. The method is declared with the single
  parameter \<^verbatim>\<open>self\<close>, so a call with any further positional argument raises
  \<^verbatim>\<open>TypeError\<close> before the body runs.
\<close>

definition call_thresholding ::
  "'e cv \<Rightarrow> 'f Thresholding \<Rightarrow> heap \<Rightarrow> addr list
   \<Rightarrow> ('e error \<times> 'f Thresholding \<times> heap) + (addr \<times> 'f Thresholding \<times> heap)" where
  "call_thresholding cv self h args =
    (if args \<noteq> [] then Inl (TypeError, self, h) else thresholding cv self h)"

text \<open>
  \<^verbatim>\<open>execute(self, eopatch)\<close>, lines 145 to 149. The right-hand side of line 147 is
  evaluated first: the two subscripts (\<^verbatim>\<open>KeyError\<close> on a missing key), then the call with
  the looked-up array as its argument. The patch is a mapping from category to a mapping
  from name to array. A call that raises gives the exception with the instance, the heap
  and the patch at that moment.
\<close>

fun execute_loop ::
  "'e cv \<Rightarrow> 'ft feature_triple list \<Rightarrow> ('ft feature_triple list) Thresholding \<Rightarrow> heap
   \<Rightarrow> 'ft patch
   \<Rightarrow> ('e error \<times> ('ft feature_triple list) Thresholding \<times> heap \<times> 'ft patch)
       + (('ft feature_triple list) Thresholding \<times> heap \<times> 'ft patch)" where
  "execute_loop cv [] self h eopatch = Inr (self, h, eopatch)"
| "execute_loop cv ((feature_type, feature_name, new_feature_name) # rest) self h eopatch =
    (case eopatch feature_type of
       None \<Rightarrow> Inl (KeyError, self, h, eopatch)
     | Some by_name \<Rightarrow>
        (case by_name feature_name of
           None \<Rightarrow> Inl (KeyError, self, h, eopatch)
         | Some x \<Rightarrow>
            (case call_thresholding cv self h [x] of
               Inl (e, self', h') \<Rightarrow> Inl (e, self', h', eopatch)
             | Inr (r, self', h') \<Rightarrow>
                execute_loop cv rest self' h'
                  (eopatch(feature_type \<mapsto> by_name(new_feature_name \<mapsto> r))))))"

definition execute ::
  "'e cv \<Rightarrow> ('ft feature_triple list) Thresholding \<Rightarrow> heap \<Rightarrow> 'ft patch
   \<Rightarrow> ('e error \<times> ('ft feature_triple list) Thresholding \<times> heap \<times> 'ft patch)
       + (('ft feature_triple list) Thresholding \<times> heap \<times> 'ft patch)" where
  "execute cv self h eopatch = execute_loop cv (feature self) self h eopatch"

section \<open>Class \<^verbatim>\<open>Bluring\<close>\<close>

definition AVAILABLE_BLURING_METHODS :: "string list" where
  "AVAILABLE_BLURING_METHODS = [''none'', ''medianBlur'', ''GaussianBlur'', ''bilateralFilter'']"

text \<open>
  The attributes of an instance, which are also the constructor's arguments. The field
  \<open>img\<close> of this record is written \<open>Bluring.img\<close> below, that of the other
  \<open>Thresholding.img\<close>.
\<close>

record Bluring =
  img :: addr
  blur_method :: string
  gKsize :: pyval
  sigmaX :: real
  sigmaY :: real
  mKsize :: int
  d :: int
  sigmaColor :: real
  sigmaSpace :: real
  borderType :: int

text \<open>
  \<^verbatim>\<open>__init__\<close>, lines 192 to 210. The guard of line 198,
  \<^verbatim>\<open>self.gKsize % 2 != 1 | self.gKsize != 0 | self.gKsize < 0\<close>, is the chain
  \<^verbatim>\<open>self.gKsize % 2 != (1 | self.gKsize) != (0 | self.gKsize) < 0\<close>, whose first operand
  \<^verbatim>\<open>self.gKsize % 2\<close> is evaluated first; a tuple has no \<^verbatim>\<open>%\<close> with an integer, which
  raises \<^verbatim>\<open>TypeError\<close>. The guard of line 204 is
  \<^verbatim>\<open>self.mKsize % 2 != (1 | self.mKsize) <= 1\<close>.
\<close>

definition Bluring_init :: "Bluring \<Rightarrow> 'e error + Bluring" where
  "Bluring_init a =
    (if blur_method a \<notin> set AVAILABLE_BLURING_METHODS then
       Inl (ValueError ''Bluring method must be one of these'')
     else
       (case gKsize a of
          PyTuple ks \<Rightarrow> Inl TypeError
        | PyInt g \<Rightarrow>
           if g mod 2 \<noteq> (1 OR g) \<and> (1 OR g) \<noteq> (0 OR g) \<and> (0 OR g) < 0 then
             Inl (ValueError ''gKsize must be odd and positive or 0'')
           else if mKsize a mod 2 \<noteq> (1 OR mKsize a) \<and> (1 OR mKsize a) \<le> 1 then
             Inl (ValueError ''mKsize must be odd and greater than 1'')
           else
             Inr \<lparr>img = Bluring.img a, blur_method = blur_method a, gKsize = gKsize a,
                  sigmaX = sigmaX a, sigmaY = sigmaY a, mKsize = mKsize a, d = d a,
                  sigmaColor = sigmaColor a, sigmaSpace = sigmaSpace a,
                  borderType = borderType a\<rparr>))"

text \<open>
  \<^verbatim>\<open>_blur(self)\<close>, lines 212 to 223. Each of the three filters binds its result, a new
  array, to \<^verbatim>\<open>self.img\<close> and returns it; the trailing \<^verbatim>\<open>else\<close> returns \<^verbatim>\<open>self.img\<close> as it
  is.
\<close>

definition blur ::
  "'e cv \<Rightarrow> Bluring \<Rightarrow> heap \<Rightarrow> ('e error \<times> Bluring \<times> heap) + (addr \<times> Bluring \<times> heap)" where
  "blur cv self h =
    (if blur_method self = ''bilateralFilter'' then
       (case bilateralFilter cv (cells h (Bluring.img self)) (d self) (sigmaColor self)
               (sigmaSpace self) (borderType self) of
          Inl e \<Rightarrow> Inl (LibraryError e, self, h)
        | Inr out \<Rightarrow>
           let (a, h1) = alloc h out; self1 = self\<lparr>Bluring.img := a\<rparr>
           in Inr (Bluring.img self1, self1, h1))
     else if blur_method self = ''medianBlur'' then
       (case medianBlur cv (cells h (Bluring.img self)) (mKsize self) of
          Inl e \<Rightarrow> Inl (LibraryError e, self, h)
        | Inr out \<Rightarrow>
           let (a, h1) = alloc h out; self1 = self\<lparr>Bluring.img := a\<rparr>
           in Inr (Bluring.img self1, self1, h1))
     else if blur_method self = ''GaussianBlur'' then
       (case GaussianBlur cv (cells h (Bluring.img self)) (gKsize self) (sigmaX self)
               (sigmaY self) (borderType self) of
          Inl e \<Rightarrow> Inl (LibraryError e, self, h)
        | Inr out \<Rightarrow>
           let (a, h1) = alloc h out; self1 = self\<lparr>Bluring.img := a\<rparr>
           in Inr (Bluring.img self1, self1, h1))
     else Inr (Bluring.img self, self, h))"

section \<open>The operation as the specification words it\<close>


definition spec_simple_variants :: "((string \<times> bool) \<times> int) list" where
  "spec_simple_variants =
    [((''THRESH_BINARY'', False), cv_THRESH_BINARY),
     ((''THRESH_BINARY'', True), cv_THRESH_BINARY + cv_THRESH_OTSU),
     ((''THRESH_BINARY_INV'', False), cv_THRESH_BINARY_INV),
     ((''THRESH_BINARY_INV'', True), cv_THRESH_BINARY_INV + cv_THRESH_OTSU),
     ((''THRESH_TRUNC'', False), cv_THRESH_TRUNC),
     ((''THRESH_TRUNC'', True), cv_THRESH_TRUNC + cv_THRESH_OTSU),
     ((''THRESH_TOZERO'', False), cv_THRESH_TOZERO),
     ((''THRESH_TOZERO'', True), cv_THRESH_TOZERO + cv_THRESH_OTSU),
     ((''THRESH_TOZERO_INV'', False), cv_THRESH_TOZERO_INV),
     ((''THRESH_TOZERO_INV'', True), cv_THRESH_TOZERO_INV + cv_THRESH_OTSU)]"

definition spec_recolour :: "image \<Rightarrow> gray \<Rightarrow> int \<Rightarrow> image" where
  "spec_recolour im th cutoff = map2 (map2 (\<lambda>p v. if v < cutoff then (255, 0, 0) else p)) im th"

text \<open>
  Step 2 on an array. For a grid of three-channel pixels it is \<open>spec_recolour\<close>, the mask
  having the shape of the grid. The specification names a colour and gives no rule for
  a grid of single values; there the step is the assignment of line 112 as it stands.
\<close>

definition spec_mask_and_recolour :: "ndarray \<Rightarrow> gray \<Rightarrow> int \<Rightarrow> 'e error + ndarray" where
  "spec_mask_and_recolour arr th cutoff =
    (case arr of
       Colour im \<Rightarrow>
         if map length th \<noteq> map length im then Inl IndexError
         else Inr (Colour (spec_recolour im th cutoff))
     | Gray g \<Rightarrow> setitem_mask (Gray g) (mask_of th cutoff) (255, 0, 0))"


section \<open>Concrete inputs\<close>

text \<open>
  The constructor arguments with every default of the two signatures; a heap with one
  array of two three-channel pixels at address 0, and one with an array of two single
  values; and stand-ins for the primitives that can be evaluated: the adaptive threshold
  gives 0 where the first (or only) channel is below 128 and the max value elsewhere, the
  colour conversion swaps the first and third channel and fails on single values, the
  simple threshold and the filters return their input.
\<close>

definition example_args :: "(string feature_arg) Thresholding" where
  "example_args =
    \<lparr>feature = (''DATA'', ''bands'', None), img = 0,
     adaptive_th = ''ADAPTIVE_THRESH_MEAN_C'', thresh_type = ''THRESH_BINARY'',
     simple_th = ''THRESH_BINARY'', blockSize = 11, c = 2, mask_th = 10, maxValue = 255,
     otsu = 0, simple_th_value = 127, simple_th_maxValue = 255\<rparr>"

definition example_self :: "(string feature_triple list) Thresholding" where
  "example_self =
    \<lparr>feature = [(''DATA'', ''bands'', ''bands_THRESH'')], img = 0,
     adaptive_th = ''ADAPTIVE_THRESH_MEAN_C'', thresh_type = ''THRESH_BINARY'',
     simple_th = ''THRESH_BINARY'', blockSize = 11, c = 2, mask_th = 10, maxValue = 255,
     otsu = 0, simple_th_value = 127, simple_th_maxValue = 255\<rparr>"

definition example_parse ::
  "(string feature_arg \<Rightarrow> unit + string feature_triple list) option" where
  "example_parse = Some parse_features_THRESH"

definition example_blur_args :: Bluring where
  "example_blur_args =
    \<lparr>img = 0, blur_method = ''none'', gKsize = PyTuple [5, 5], sigmaX = 0, sigmaY = 0,
     mKsize = 5, d = 9, sigmaColor = 75, sigmaSpace = 75, borderType = 4\<rparr>"

definition example_heap :: heap where
  "example_heap =
    \<lparr>cells = (\<lambda>a. Gray [])(0 := Colour [[(5, 6, 7), (200, 100, 50)]]), fresh = 1\<rparr>"

definition example_gray_heap :: heap where
  "example_gray_heap = \<lparr>cells = (\<lambda>a. Gray [])(0 := Gray [[5, 200]]), fresh = 1\<rparr>"

definition cv_stub :: "unit cv" where
  "cv_stub =
    \<lparr>adaptiveThreshold = (\<lambda>arr maxv method type bs cc.
        Inr (case arr of
               Gray g \<Rightarrow> map (map (\<lambda>v. if v < 128 then 0 else maxv)) g
             | Colour im \<Rightarrow> map (map (\<lambda>(b, g, r). if b < 128 then 0 else maxv)) im)),
     cvtColor = (\<lambda>arr code.
        case arr of
          Gray g \<Rightarrow> Inl ()
        | Colour im \<Rightarrow> Inr (Colour (map (map (\<lambda>(b, g, r). (r, g, b))) im))),
     threshold = (\<lambda>im th maxv type. Inr (0, im)),
     bilateralFilter = (\<lambda>im dd sc ss bt. Inr im),
     medianBlur = (\<lambda>im ks. Inr im),
     GaussianBlur = (\<lambda>im ks sx sy bt. Inr im)\<rparr>"

section \<open>Auxiliary facts\<close>

subsection \<open>The guards of the two constructors\<close>

lemma le_255_OR: "(x::int) \<le> 255 OR x"
  using or_greater_eq [of 255 x] by (simp add: or.commute)

lemma Thresholding_init_Some:
  "Thresholding_init (Some parse) a =
    (case parse (feature a) of
       Inl e \<Rightarrow> Inl (LibraryError e)
     | Inr fs \<Rightarrow>
        if adaptive_th a \<notin> set AVAILABLE_METHODS_ADAPTIVE_THRESHOLDING then
          Inl (ValueError ''Adaptive thresholding method must be one of these'')
        else if thresh_type a \<notin> set AVAILABLE_TRESHOLD_TYPE then
          Inl (ValueError ''Thresholding type must be one of these'')
        else if simple_th a \<notin> set AVAILABLE_METHODS_SIMPLE_THRESHOLDING then
          Inl (ValueError ''Simple thresholding method must be one of these'')
        else if blockSize a mod 2 \<noteq> 1 then
          Inl (ValueError ''Block size must be an odd number'')
        else
          Inr \<lparr>feature = fs, img = Thresholding.img a, adaptive_th = adaptive_th a,
               thresh_type = thresh_type a, simple_th = simple_th a,
               blockSize = blockSize a, c = c a, mask_th = mask_th a,
               maxValue = maxValue a, otsu = otsu a,
               simple_th_value = simple_th_value a,
               simple_th_maxValue = simple_th_maxValue a\<rparr>)"
  using le_255_OR [of "maxValue a"] le_255_OR [of "simple_th_value a"]
    le_255_OR [of "simple_th_maxValue a"]
  by (simp add: Thresholding_init_def split: sum.split)

lemma Thresholding_init_InrD:
  assumes "Thresholding_init pf a = Inr self"
  shows "adaptive_th self \<in> set AVAILABLE_METHODS_ADAPTIVE_THRESHOLDING"
    and "thresh_type self \<in> set AVAILABLE_TRESHOLD_TYPE"
    and "simple_th self \<in> set AVAILABLE_METHODS_SIMPLE_THRESHOLDING"
    and "odd (blockSize self)"
    and "Thresholding.img self = Thresholding.img a"
proof -
  from assms obtain parse where pf: "pf = Some parse"
    by (cases pf) (simp_all add: Thresholding_init_def)
  from assms obtain fs where fs: "parse (feature a) = Inr fs"
    unfolding pf Thresholding_init_Some by (cases "parse (feature a)") simp_all
  from assms show "adaptive_th self \<in> set AVAILABLE_METHODS_ADAPTIVE_THRESHOLDING"
    and "thresh_type self \<in> set AVAILABLE_TRESHOLD_TYPE"
    and "simple_th self \<in> set AVAILABLE_METHODS_SIMPLE_THRESHOLDING"
    and "odd (blockSize self)"
    and "Thresholding.img self = Thresholding.img a"
    unfolding pf Thresholding_init_Some fs
    by (auto split: if_splits simp: odd_iff_mod_2_eq_one)
qed

lemma one_OR_int: "(1::int) OR g = (if even g then g + 1 else g)"
  by (simp add: one_or_eq)

lemma gKsize_guard:
  "((g::int) mod 2 \<noteq> (1 OR g) \<and> (1 OR g) \<noteq> (0 OR g) \<and> (0 OR g) < 0) = (g < 0 \<and> even g)"
proof (cases "even g")
  case True
  then have "g mod 2 = 0" by presburger
  with True have "g + 1 \<noteq> 0" by presburger
  with True \<open>g mod 2 = 0\<close> show ?thesis by (simp add: one_OR_int)
next
  case False
  then show ?thesis by (simp add: one_OR_int)
qed

lemma mKsize_guard:
  "((m::int) mod 2 \<noteq> (1 OR m) \<and> (1 OR m) \<le> 1) = (m \<le> 0)"
proof (cases "even m")
  case True
  then have "m mod 2 = 0" and "m + 1 \<noteq> 0" by presburger+
  with True show ?thesis by (simp add: one_OR_int)
next
  case False
  then have "m mod 2 = 1" by presburger
  with False show ?thesis by (simp add: one_OR_int) presburger
qed

lemma Bluring_init_PyInt:
  "gKsize a = PyInt g \<Longrightarrow> Bluring_init a =
    (if blur_method a \<notin> set AVAILABLE_BLURING_METHODS then
       Inl (ValueError ''Bluring method must be one of these'')
     else if g < 0 \<and> even g then Inl (ValueError ''gKsize must be odd and positive or 0'')
     else if mKsize a \<le> 0 then Inl (ValueError ''mKsize must be odd and greater than 1'')
     else Inr a)"
  unfolding Bluring_init_def gKsize_guard mKsize_guard by simp

subsection \<open>The operation\<close>

lemma length_mask_of: "map length (mask_of th cutoff) = map length th"
  by (simp add: mask_of_def)

lemma count_nonzero_mask_of:
  "count_nonzero (mask_of th cutoff) = length (filter (\<lambda>v. v < cutoff) (concat th))"
proof -
  have "concat (mask_of th cutoff) = map (\<lambda>v. of_bool (v < cutoff) * 255) (concat th)"
    by (simp add: mask_of_def map_concat)
  then show ?thesis
    by (simp add: count_nonzero_def filter_map comp_def)
qed

lemma setitem_mask_of:
  "setitem_mask arr (mask_of th cutoff) (255, 0, 0) = spec_mask_and_recolour arr th cutoff"
proof (cases arr)
  case (Gray g)
  then show ?thesis by (simp add: spec_mask_and_recolour_def)
next
  case (Colour im)
  then show ?thesis
    by (simp add: spec_mask_and_recolour_def setitem_mask_def spec_recolour_def mask_of_def
        zip_map2 case_prod_unfold comp_def)
qed

lemma setitem_mask_Gray:
  "setitem_mask (Gray g) (mask_of th cutoff) (255, 0, 0) =
     (if map length th \<noteq> map length g then Inl IndexError
      else if length (filter (\<lambda>v. v < cutoff) (concat th)) \<noteq> 3 then
        Inl (ValueError ''NumPy boolean array indexing assignment cannot assign 3 input values'')
      else Inr (Gray (put_rows g (mask_of th cutoff) [255, 0, 0])))"
  by (simp add: setitem_mask_def length_mask_of count_nonzero_mask_of)

lemma spec_recolour_nth:
  assumes "map length th = map length im" and "i < length im" and "j < length (im ! i)"
  shows "spec_recolour im th cutoff ! i ! j
           = (if th ! i ! j < cutoff then (255, 0, 0) else im ! i ! j)"
proof -
  from assms(1) have "length (map length th) = length (map length im)" by simp
  then have len: "length th = length im" by simp
  from assms(1) have "map length th ! i = map length im ! i" by simp
  with assms(2) len have leni: "length (th ! i) = length (im ! i)" by simp
  from assms(2,3) len leni show ?thesis by (simp add: spec_recolour_def)
qed

lemma length_spec_recolour:
  "map length th = map length im \<Longrightarrow> map length (spec_recolour im th cutoff) = map length im"
proof -
  assume a: "map length th = map length im"
  then have "length (map length th) = length (map length im)" by simp
  then have len: "length th = length im" by simp
  show ?thesis
  proof (rule nth_equalityI)
    show "length (map length (spec_recolour im th cutoff)) = length (map length im)"
      using len by (simp add: spec_recolour_def)
  next
    fix i assume "i < length (map length (spec_recolour im th cutoff))"
    then have i: "i < length im" using len by (simp add: spec_recolour_def)
    from a have "map length th ! i = map length im ! i" by simp
    with i len have "length (th ! i) = length (im ! i)" by simp
    with i len show "map length (spec_recolour im th cutoff) ! i = map length im ! i"
      by (simp add: spec_recolour_def)
  qed
qed

text \<open>The operation, with lines 111 and 112 folded into one step.\<close>

lemma thresholding_unfold:
  "thresholding cv self h =
    (case adaptiveThreshold cv (cells h (Thresholding.img self)) (maxValue self)
            (fst (adaptive_dispatch (adaptive_th self) (thresh_type self)))
            (snd (adaptive_dispatch (adaptive_th self) (thresh_type self)))
            (blockSize self) (c self) of
       Inl e \<Rightarrow> Inl (LibraryError e, self, h)
     | Inr th \<Rightarrow>
        (case spec_mask_and_recolour (cells h (Thresholding.img self)) th (mask_th self) of
           Inl e \<Rightarrow> Inl (e, self, h)
         | Inr original \<Rightarrow>
            (case cvtColor cv original cv_COLOR_BGR2RGB of
               Inl e \<Rightarrow>
                 Inl (LibraryError e, self,
                      h\<lparr>cells := (cells h)(Thresholding.img self := original)\<rparr>)
             | Inr converted \<Rightarrow>
                (case simple_dispatch (simple_th self) (otsu self) of
                   None \<Rightarrow>
                     Inr (fresh h, self\<lparr>Thresholding.img := fresh h\<rparr>,
                          h\<lparr>cells := (cells h)
                               (Thresholding.img self := original, fresh h := converted),
                            fresh := Suc (fresh h)\<rparr>)
                 | Some flag \<Rightarrow>
                    (case threshold cv converted (simple_th_value self)
                            (simple_th_maxValue self) flag of
                       Inl e \<Rightarrow>
                         Inl (LibraryError e, self\<lparr>Thresholding.img := fresh h\<rparr>,
                              h\<lparr>cells := (cells h)
                                   (Thresholding.img self := original, fresh h := converted),
                                fresh := Suc (fresh h)\<rparr>)
                     | Inr (ret, result) \<Rightarrow>
                        Inr (Suc (fresh h), self\<lparr>Thresholding.img := fresh h\<rparr>,
                             h\<lparr>cells := (cells h)
                                  (Thresholding.img self := original, fresh h := converted,
                                   Suc (fresh h) := result),
                               fresh := Suc (Suc (fresh h))\<rparr>))))))"
  unfolding thresholding_def setitem_mask_of
  by (simp add: alloc_def Let_def split: sum.split option.split prod.split)


lemma simple_table:
  assumes "simple \<in> set AVAILABLE_METHODS_SIMPLE_THRESHOLDING"
  shows "simple_dispatch simple flag = map_of spec_simple_variants (simple, flag \<noteq> 0)"
    and "simple_dispatch simple flag \<noteq> None"
  using assms
  by (auto simp: AVAILABLE_METHODS_SIMPLE_THRESHOLDING_def spec_simple_variants_def
      simple_dispatch_def)

lemma thresholding_frame:
  assumes "thresholding cv self h = Inr (r, self', h')"
  shows "self' = self\<lparr>Thresholding.img := fresh h\<rparr>"
  using assms unfolding thresholding_unfold
  by (auto split: sum.splits if_splits option.splits)


lemma blur_frame:
  assumes "blur cv b h = Inr (r, b', h')"
  shows "b'\<lparr>Bluring.img := Bluring.img b\<rparr> = b"
  using assms unfolding blur_def
  by (auto simp: alloc_def Let_def split: sum.splits if_splits)


text \<open>
  On a grid of three-channel pixels with an adaptive output of its shape, the array that
  \<^verbatim>\<open>self.img\<close> named on entry holds \<open>spec_recolour\<close> of its former content after the call,
  whether the call returns or one of the later primitives raises.
\<close>

lemma thresholding_recolours_Colour:
  assumes "cells h (Thresholding.img self) = Colour im"
    and "adaptiveThreshold cv (Colour im) (maxValue self)
            (fst (adaptive_dispatch (adaptive_th self) (thresh_type self)))
            (snd (adaptive_dispatch (adaptive_th self) (thresh_type self)))
            (blockSize self) (c self) = Inr th"
    and "map length th = map length im"
    and "Thresholding.img self < fresh h"
  shows "cells (heap_after (thresholding cv self h)) (Thresholding.img self)
           = Colour (spec_recolour im th (mask_th self))"
  using assms unfolding thresholding_unfold heap_after_def
  by (simp add: spec_mask_and_recolour_def split: sum.split option.split prod.split)

text \<open>
  With a feature parser in place that returns, construction fails exactly when one of the
  three membership checks or the parity check does.
\<close>

lemma Thresholding_init_Some_raises_iff:
  assumes "parse (feature a) = Inr fs"
  shows "isl (Thresholding_init (Some parse) a) =
        (adaptive_th a \<notin> set AVAILABLE_METHODS_ADAPTIVE_THRESHOLDING
         \<or> thresh_type a \<notin> set AVAILABLE_TRESHOLD_TYPE
         \<or> simple_th a \<notin> set AVAILABLE_METHODS_SIMPLE_THRESHOLDING
         \<or> even (blockSize a))"
proof -
  have par: "(blockSize a mod 2 \<noteq> 1) = even (blockSize a)" by presburger
  show ?thesis unfolding Thresholding_init_Some assms par by simp
qed

subsection \<open>The concrete inputs\<close>

lemma example_init: "Thresholding_init example_parse example_args = Inr example_self"
  by (simp add: example_parse_def example_args_def example_self_def Thresholding_init_Some
      AVAILABLE_METHODS_ADAPTIVE_THRESHOLDING_def AVAILABLE_TRESHOLD_TYPE_def
      AVAILABLE_METHODS_SIMPLE_THRESHOLDING_def)

lemma example_run:
  "thresholding cv_stub example_self example_heap =
     Inr (2, example_self\<lparr>Thresholding.img := 1\<rparr>,
          \<lparr>cells = (\<lambda>a. Gray [])(0 := Colour [[(255, 0, 0), (200, 100, 50)]],
                                  1 := Colour [[(0, 0, 255), (50, 100, 200)]],
                                  2 := Colour [[(0, 0, 255), (50, 100, 200)]]), fresh = 3\<rparr>)"
  by (simp add: thresholding_unfold cv_stub_def example_self_def example_heap_def
      adaptive_dispatch_def simple_dispatch_def spec_mask_and_recolour_def spec_recolour_def
      numeral_2_eq_2)


lemma example_blur_init:
  "Bluring_init (example_blur_args\<lparr>gKsize := PyInt 5\<rparr>) = Inr (example_blur_args\<lparr>gKsize := PyInt 5\<rparr>)"
  by (simp add: Bluring_init_PyInt [of _ 5] example_blur_args_def AVAILABLE_BLURING_METHODS_def)



section \<open>The claims\<close>

text \<open>
  C1 (fails on the code). The claim: for every patch that contains the configured
  feature, \<^verbatim>\<open>execute\<close> stores the result of the thresholding operation under the output
  name and returns the patch, the input entry still present. The code: line 147 calls
  \<^verbatim>\<open>self._thresholding\<close> with the looked-up array as an argument, and the method takes
  none, so for every instance with at least one feature triple and every patch that
  contains the first triple's input entry, \<^verbatim>\<open>execute\<close> raises \<^verbatim>\<open>TypeError\<close> and leaves
  the instance, the heap and the patch as they were. For the class as it is written, with no inherited \<^verbatim>\<open>_parse_features\<close>,
  construction itself raises \<^verbatim>\<open>AttributeError\<close> at line 68.
\<close>

theorem execute_raises_TypeError:
  "execute cv (self\<lparr>feature := (ft, name, new_name) # rest\<rparr>) h
      (eopatch(ft \<mapsto> by_name(name \<mapsto> x)))
     = Inl (TypeError, self\<lparr>feature := (ft, name, new_name) # rest\<rparr>, h,
            eopatch(ft \<mapsto> by_name(name \<mapsto> x)))
   \<and> Thresholding_init None a = Inl AttributeError"
  by (simp add: execute_def call_thresholding_def Thresholding_init_def)

text \<open>
  C2 (fails on the code). The claim: construction raises an error when the mask cutoff,
  the max value, the Otsu flag, the simple threshold value or the simple max value is
  out of bounds, in particular for \<^verbatim>\<open>mask_th = 300\<close>, \<^verbatim>\<open>maxValue = -1\<close>,
  \<^verbatim>\<open>simple_th_value = 256\<close> and an Otsu flag other than 0 or 1. The code: none of the five
  \<^verbatim>\<open>raise\<close> statements of lines 84 to 97 is ever reached, whatever the arguments, and with
  a feature parser in place the constructor returns an instance that holds the four
  values named by the claim.
\<close>

theorem bound_checks_never_raise:
  "Thresholding_init pf a \<noteq> Inl (ValueError ''Mask threshold must be between 0 and 255'')
   \<and> Thresholding_init pf a \<noteq> Inl (ValueError ''maxValue must be between 0 and 255'')
   \<and> Thresholding_init pf a \<noteq> Inl (ValueError ''Parameter otsu must be 0 or 1'')
   \<and> Thresholding_init pf a \<noteq> Inl (ValueError ''simple_th_value must be between 0 and 255'')
   \<and> Thresholding_init pf a \<noteq> Inl (ValueError ''simple_th_maxValue must be between 0 and 255'')
   \<and> Thresholding_init example_parse
        (example_args\<lparr>mask_th := 300, maxValue := - 1, otsu := 2, simple_th_value := 256\<rparr>)
       = Inr (example_self\<lparr>mask_th := 300, maxValue := - 1, otsu := 2,
                simple_th_value := 256\<rparr>)"
proof -
  have dead:
    "Thresholding_init pf a \<noteq> Inl (ValueError ''Mask threshold must be between 0 and 255'')
     \<and> Thresholding_init pf a \<noteq> Inl (ValueError ''maxValue must be between 0 and 255'')
     \<and> Thresholding_init pf a \<noteq> Inl (ValueError ''Parameter otsu must be 0 or 1'')
     \<and> Thresholding_init pf a \<noteq> Inl (ValueError ''simple_th_value must be between 0 and 255'')
     \<and> Thresholding_init pf a
          \<noteq> Inl (ValueError ''simple_th_maxValue must be between 0 and 255'')"
  proof (cases pf)
    case None
    then show ?thesis by (simp add: Thresholding_init_def)
  next
    case (Some parse)
    show ?thesis unfolding Some Thresholding_init_Some
      by (simp split: sum.split)
  qed
  have "Thresholding_init example_parse
        (example_args\<lparr>mask_th := 300, maxValue := - 1, otsu := 2, simple_th_value := 256\<rparr>)
       = Inr (example_self\<lparr>mask_th := 300, maxValue := - 1, otsu := 2,
                simple_th_value := 256\<rparr>)"
    by (simp add: Thresholding_init_def example_parse_def example_args_def example_self_def
        AVAILABLE_METHODS_ADAPTIVE_THRESHOLDING_def AVAILABLE_TRESHOLD_TYPE_def
        AVAILABLE_METHODS_SIMPLE_THRESHOLDING_def)
  with dead show ?thesis by simp
qed

text \<open>
  C3 (fails on the code). The claim: construction of \<^verbatim>\<open>Bluring\<close> raises when the method is
  outside the enumeration, when the Gaussian kernel size is not odd and non-negative (or
  zero), or when the median kernel size is not odd and greater than 1, and succeeds with
  valid parameters. The code: with every default of the signature, all of them valid,
  construction raises \<^verbatim>\<open>TypeError\<close>; with an integer Gaussian kernel size, the even
  Gaussian size 4 and the even median size 4 are accepted, and so is the median size 1.
\<close>

theorem Bluring_init_checks_miss:
  "Bluring_init example_blur_args = (Inl TypeError :: unit error + Bluring)
   \<and> Bluring_init (example_blur_args\<lparr>gKsize := PyInt 4, mKsize := 4\<rparr>)
       = (Inr (example_blur_args\<lparr>gKsize := PyInt 4, mKsize := 4\<rparr>) :: unit error + Bluring)
   \<and> Bluring_init (example_blur_args\<lparr>gKsize := PyInt 5, mKsize := 1\<rparr>)
       = (Inr (example_blur_args\<lparr>gKsize := PyInt 5, mKsize := 1\<rparr>) :: unit error + Bluring)"
  by (simp add: Bluring_init_def example_blur_args_def AVAILABLE_BLURING_METHODS_def)

text \<open>
  C4 (amended). The claim: for every pair-valued \<^verbatim>\<open>gKsize\<close> the constructor raises
  \<^verbatim>\<open>TypeError\<close> before any other validation completes, whatever the blur method. The
  method is checked first: with a method outside the enumeration the constructor raises
  the \<^verbatim>\<open>ValueError\<close> of line 195.
\<close>

theorem Bluring_init_tuple_unknown_method:
  "Bluring_init (example_blur_args\<lparr>blur_method := ''boxFilter''\<rparr>)
     = (Inl (ValueError ''Bluring method must be one of these'') :: unit error + Bluring)
   \<and> Bluring_init (example_blur_args\<lparr>blur_method := ''boxFilter''\<rparr>)
     \<noteq> (Inl TypeError :: unit error + Bluring)"
  by (simp add: Bluring_init_def example_blur_args_def AVAILABLE_BLURING_METHODS_def)

text \<open>
  C4 as amended: for every tuple-valued \<^verbatim>\<open>gKsize\<close>, the constructor raises \<^verbatim>\<open>TypeError\<close>
  when the blur method is one of the four of the enumeration, and the \<^verbatim>\<open>ValueError\<close> of
  the method check otherwise; in both cases no instance is constructed.
\<close>

theorem Bluring_init_tuple:
  "gKsize a = PyTuple ks \<Longrightarrow> Bluring_init a =
     (if blur_method a \<in> set AVAILABLE_BLURING_METHODS then Inl TypeError
      else Inl (ValueError ''Bluring method must be one of these''))"
  by (simp add: Bluring_init_def)

theorem Bluring_init_tuple_witness:
  "gKsize example_blur_args = PyTuple [5, 5]
   \<and> Bluring_init example_blur_args = (Inl TypeError :: unit error + Bluring)"
proof -
  have g: "gKsize example_blur_args = PyTuple [5, 5]" by (simp add: example_blur_args_def)
  show ?thesis
    using g Bluring_init_tuple [OF g, where ?'a = unit]
    by (simp add: example_blur_args_def AVAILABLE_BLURING_METHODS_def)
qed



text \<open>
  C6 (fails on the code). The claim: in the mask-and-recolour step exactly the pixels
  whose adaptive output is strictly below the cutoff are overwritten with the sentinel
  colour (255, 0, 0), the others are left as they are, and this happens before the
  channel reordering. The code: the image may be a 2D array (docstring, line 45), the
  form the adaptive threshold works on, and there line 112 stores the three numbers of
  the tuple in three places instead of a colour in each selected place. On every grid of
  single values the step raises unless exactly three values are below the cutoff, and
  then it writes 255, 0 and 0 into them. With the two values 5 and 200, the first below
  the cutoff, the operation raises \<^verbatim>\<open>ValueError\<close> at line 112 and the array is as it was;
  with 5, 6, 7 and 200 the three values below the cutoff become 255, 0 and 0.
\<close>

theorem recolour_fails_on_single_values:
  "setitem_mask (Gray g) (mask_of th cutoff) (255, 0, 0) =
     (if map length th \<noteq> map length g then Inl IndexError
      else if length (filter (\<lambda>v. v < cutoff) (concat th)) \<noteq> 3 then
        Inl (ValueError ''NumPy boolean array indexing assignment cannot assign 3 input values'')
      else Inr (Gray (put_rows g (mask_of th cutoff) [255, 0, 0])))
   \<and> adaptiveThreshold cv_stub (cells example_gray_heap (Thresholding.img example_self))
        (maxValue example_self)
        (fst (adaptive_dispatch (adaptive_th example_self) (thresh_type example_self)))
        (snd (adaptive_dispatch (adaptive_th example_self) (thresh_type example_self)))
        (blockSize example_self) (c example_self) = Inr [[0, 255]]
   \<and> thresholding cv_stub example_self example_gray_heap =
        Inl (ValueError ''NumPy boolean array indexing assignment cannot assign 3 input values'',
             example_self, example_gray_heap)
   \<and> cells example_gray_heap (Thresholding.img example_self) = Gray [[5, 200]]
   \<and> setitem_mask (Gray [[5, 6, 7, 200]]) (mask_of [[0, 0, 0, 255]] 10) (255, 0, 0)
        = (Inr (Gray [[255, 0, 0, 200]]) :: unit error + ndarray)"
proof -
  have "thresholding cv_stub example_self example_gray_heap =
        Inl (ValueError ''NumPy boolean array indexing assignment cannot assign 3 input values'',
             example_self, example_gray_heap)"
    by (simp add: thresholding_def cv_stub_def example_self_def example_gray_heap_def
        adaptive_dispatch_def setitem_mask_Gray)
  moreover have "setitem_mask (Gray [[5, 6, 7, 200]]) (mask_of [[0, 0, 0, 255]] 10) (255, 0, 0)
        = (Inr (Gray [[255, 0, 0, 200]]) :: unit error + ndarray)"
    by (simp add: setitem_mask_Gray) (simp add: mask_of_def)
  ultimately show ?thesis
    by (simp add: setitem_mask_Gray)
      (simp add: cv_stub_def example_self_def example_gray_heap_def)
qed

text \<open>
  C7 (fails on the code). The claim: construction raises an error if and only if one of
  the three membership checks or the parity check fails. The code: the class statement
  of line 9 names no base class, so with arguments that pass all four checks, here the
  defaults of the signature, construction raises \<^verbatim>\<open>AttributeError\<close> at line 68, before any
  check is made.
\<close>

theorem init_raises_on_valid_arguments:
  "Thresholding_init None example_args = (Inl AttributeError
      :: unit error + (string feature_triple list) Thresholding)
   \<and> adaptive_th example_args \<in> set AVAILABLE_METHODS_ADAPTIVE_THRESHOLDING
   \<and> thresh_type example_args \<in> set AVAILABLE_TRESHOLD_TYPE
   \<and> simple_th example_args \<in> set AVAILABLE_METHODS_SIMPLE_THRESHOLDING
   \<and> blockSize example_args mod 2 = 1"
  by (simp add: Thresholding_init_def example_args_def
      AVAILABLE_METHODS_ADAPTIVE_THRESHOLDING_def AVAILABLE_TRESHOLD_TYPE_def
      AVAILABLE_METHODS_SIMPLE_THRESHOLDING_def)




text \<open>
  C9. For every validly constructed \<^verbatim>\<open>Thresholding\<close> instance, the dispatch on the simple
  method never reaches its trailing \<^verbatim>\<open>else\<close>, neither in the first call of the operation
  nor on the instance that a call leaves behind.
\<close>

theorem simple_else_unreachable:
  assumes "Thresholding_init pf a = Inr self"
  shows "simple_dispatch (simple_th self) (otsu self) \<noteq> None
    \<and> (thresholding cv self h = Inr (r, self', h') \<longrightarrow>
         simple_dispatch (simple_th self') (otsu self') \<noteq> None)"
  using simple_table(2) [OF Thresholding_init_InrD(3) [OF assms]]
    thresholding_frame [of cv self h r self' h']
  by auto

theorem simple_else_unreachable_witness:
  "Thresholding_init example_parse example_args = Inr example_self
   \<and> simple_dispatch (simple_th example_self) (otsu example_self) = Some cv_THRESH_BINARY
   \<and> simple_dispatch (simple_th (example_self\<lparr>Thresholding.img := 1\<rparr>))
        (otsu (example_self\<lparr>Thresholding.img := 1\<rparr>)) \<noteq> None"
  using simple_else_unreachable [OF example_init, of cv_stub example_heap] example_run example_init
  by (simp add: example_self_def simple_dispatch_def)

text \<open>
  C10. For every validly constructed \<^verbatim>\<open>Bluring\<close> instance with method \<^verbatim>\<open>"none"\<close>, the blur
  operation returns the stored image reference and leaves the instance and every array
  as they are.
\<close>

theorem blur_none_identity:
  assumes "Bluring_init a = Inr self" and "blur_method a = ''none''"
  shows "blur cv self h = Inr (Bluring.img self, self, h) \<and> Bluring.img self = Bluring.img a"
proof -
  from assms have "self = a"
    by (cases "gKsize a") (auto simp: Bluring_init_def split: if_splits)
  with assms(2) show ?thesis by (simp add: blur_def)
qed

theorem blur_none_identity_witness:
  "Bluring_init (example_blur_args\<lparr>gKsize := PyInt 5\<rparr>)
      = (Inr (example_blur_args\<lparr>gKsize := PyInt 5\<rparr>) :: unit error + Bluring)
   \<and> blur_method (example_blur_args\<lparr>gKsize := PyInt 5\<rparr>) = ''none''
   \<and> blur cv_stub (example_blur_args\<lparr>gKsize := PyInt 5\<rparr>) example_heap
      = Inr (0, example_blur_args\<lparr>gKsize := PyInt 5\<rparr>, example_heap)"
proof -
  have m: "blur_method (example_blur_args\<lparr>gKsize := PyInt 5\<rparr>) = ''none''"
    by (simp add: example_blur_args_def)
  show ?thesis
    using blur_none_identity [OF example_blur_init m, of cv_stub example_heap] m
      example_blur_init
    by (simp add: example_blur_args_def)
qed

end
